theory Spec2Isabelle
  imports Main
begin

section \<open>The cluster node of nano: \<open>cluster/node.go\<close>\<close>

text \<open>
  The node owns the configuration of one process of the cluster and drives its start and
  its stop. The embedding follows \<open>node.go\<close> function by function. Everything the Go
  code does to the outside world (binding a listener, dialling the master, calling the
  registration RPC, invoking a hook of a hosted component, starting a goroutine) is an
  \<open>event\<close>; a function returns the events it emitted, in program order, beside its
  result and the node as it left it. What the outside world answers (whether a bind
  succeeds, what the master replies) is read from an environment \<open>env\<close>.

  A \<open>go\<close> statement is an event at the place where it stands (\<open>GoServe\<close>, \<open>GoAcceptor\<close>);
  what the goroutine does later (the accept loops of \<open>listenAndServe\<close> and its two
  siblings, a \<open>Serve\<close> that ends with an error and is logged) is not followed. The hooks
  of a hosted component have no result and are events too. \<open>Components\<close> is the list
  that \<open>n.Components.List()\<close> returns. A pointer field of the node that may be \<open>nil\<close> is an
  \<open>option\<close>, and a method that reads through a \<open>nil\<close> one panics.
\<close>

subsection \<open>Results of a Go call\<close>

text \<open>
  A Go \<open>error\<close> built by \<open>errors.New\<close> or \<open>fmt.Errorf\<close> carries its message. A function
  of type \<open>func() error\<close> returns \<open>None\<close> for \<open>nil\<close>. A call either returns or panics.
\<close>

datatype error = Error string

datatype 'a go_result = Returns 'a | Panics string

definition nil_dereference :: string where
  "nil_dereference = ''runtime error: invalid memory address or nil pointer dereference''"

subsection \<open>Data\<close>

text \<open>\<open>clusterpb.MemberInfo\<close>, as \<open>initMaster\<close> and \<open>initMember\<close> build it.\<close>

record MemberInfo =
  MemberType :: string
  MemberAddr_pb :: string
  Services :: "string list"

text \<open>\<open>Member\<close>, an entry of the member list of the cluster.\<close>

record Member =
  isMaster :: bool
  memberInfo :: MemberInfo

text \<open>A handle on the RPC client made by \<open>newRPCClient\<close>; its pools live in the environment.\<close>

datatype rpcClient = RPCClient

text \<open>
  Modelled from the spec: \<open>cluster\<close> and \<open>newCluster\<close> are not in \<open>node.go\<close>. The cluster
  topology is the ordered list of members, created fresh (empty) in \<open>Startup\<close>, with
  the RPC client that \<open>setRpcClient\<close> stores.
\<close>

record cluster =
  members :: "Member list"
  cluster_rpcClient :: "rpcClient option"

text \<open>
  Modelled from the spec: \<open>LocalHandler\<close> is not in \<open>node.go\<close>. The service registry
  maps a service name to local or to the address of the remote peer that hosts it. Local
  entries come from the hosted components; remote entries are additive.
\<close>

record LocalHandler =
  pipeline :: string
  localServices :: "string list"
  remoteServices :: "string \<rightharpoonup> string"
  handler_rpcClient :: "rpcClient option"

text \<open>
  A \<open>grpc.Server\<close>: the services registered on it, the address of the listener it was
  handed to serve (by the goroutine that calls \<open>Serve\<close>), and whether it was stopped.
\<close>

datatype service = MasterService | MemberService

record grpcServer =
  registered :: "service list"
  serving :: "string option"
  stopped :: bool

text \<open>A hosted component with its registration options, an element of \<open>Components.List()\<close>.\<close>

type_synonym Component = string

record CompWithOptions =
  Comp :: Component
  Opts :: "string list"

text \<open>The \<open>Node\<close> struct; the last five fields are private and \<open>nil\<close> until \<open>Startup\<close>.\<close>

record Node =
  IsMaster :: bool
  AdvertiseAddr :: string
  MemberAddr :: string
  ServerAddr :: string
  Components :: "CompWithOptions list"
  IsWebsocket :: bool
  TSLCertificate :: string
  TSLKey :: string
  Pipeline :: string
  cluster :: "cluster option"
  handler :: "LocalHandler option"
  masterServer :: "grpcServer option"
  memberServer :: "grpcServer option"
  rpcClient :: "rpcClient option"

subsection \<open>Events and the environment\<close>

datatype server = TheMasterServer | TheMemberServer

datatype acceptor = listenAndServe | listenAndServeWS | listenAndServeWSTLS

datatype event =
    NetListen string
  | GoServe server string
  | GetConnArray string
  | RegisterRPC string MemberInfo
  | HandlerRegister Component
  | Cache
  | HookInit Component
  | HookAfterInit Component
  | HookBeforeShutdown Component
  | HookShutdown Component
  | GoAcceptor acceptor
  | GracefulStop server

text \<open>
  What the collaborators answer: \<open>handler.register\<close> (not in \<open>node.go\<close>, taken as a
  parameter), \<open>net.Listen("tcp", addr)\<close>, \<open>rpcClient.getConnArray(addr)\<close> and the
  \<open>Register\<close> call on the master at an address.
\<close>

record env =
  handler_register :: "LocalHandler \<Rightarrow> Component \<Rightarrow> string list \<Rightarrow> error + LocalHandler"
  net_Listen :: "string \<Rightarrow> error option"
  getConnArray :: "string \<Rightarrow> error option"
  master_Register :: "string \<Rightarrow> MemberInfo \<Rightarrow> error + MemberInfo list"

fun is_network :: "event \<Rightarrow> bool" where
  "is_network (NetListen a) = True"
| "is_network (GoServe s a) = True"
| "is_network (GetConnArray a) = True"
| "is_network (RegisterRPC a i) = True"
| "is_network (GoAcceptor a) = True"
| "is_network e = False"

fun is_hook :: "event \<Rightarrow> bool" where
  "is_hook (HookInit c) = True"
| "is_hook (HookAfterInit c) = True"
| "is_hook (HookBeforeShutdown c) = True"
| "is_hook (HookShutdown c) = True"
| "is_hook e = False"

fun is_acceptor :: "event \<Rightarrow> bool" where
  "is_acceptor (GoAcceptor a) = True"
| "is_acceptor e = False"

fun is_registration_rpc :: "event \<Rightarrow> bool" where
  "is_registration_rpc (RegisterRPC a i) = True"
| "is_registration_rpc (GetConnArray a) = True"
| "is_registration_rpc e = False"

fun is_stop :: "event \<Rightarrow> bool" where
  "is_stop (GracefulStop s) = True"
| "is_stop e = False"

subsection \<open>Collaborators of the node\<close>

definition newCluster :: "Node \<Rightarrow> cluster" where
  "newCluster n = \<lparr>members = [], cluster_rpcClient = None\<rparr>"

definition setRpcClient_cluster :: "rpcClient \<Rightarrow> cluster \<Rightarrow> cluster" where
  "setRpcClient_cluster c cl = cl\<lparr>cluster_rpcClient := Some c\<rparr>"

definition NewHandler :: "string \<Rightarrow> LocalHandler" where
  "NewHandler p =
     \<lparr>pipeline = p, localServices = [], remoteServices = Map.empty, handler_rpcClient = None\<rparr>"

definition LocalService :: "LocalHandler \<Rightarrow> string list" where
  "LocalService h = localServices h"

definition setRpcClient :: "rpcClient \<Rightarrow> LocalHandler \<Rightarrow> LocalHandler" where
  "setRpcClient c h = h\<lparr>handler_rpcClient := Some c\<rparr>"

text \<open>
  Modelled from the spec: \<open>addRemoteService\<close> and \<open>initRemoteService\<close> are not in
  \<open>node.go\<close>. Receiving a member adds that member's services as remote entries of the
  registry, attributed to that member's address; the mapping from service to address is
  last-write-wins, so receiving the same member twice changes nothing.
\<close>

definition addRemoteService :: "MemberInfo \<Rightarrow> LocalHandler \<Rightarrow> LocalHandler" where
  "addRemoteService info h =
     h\<lparr>remoteServices := fold (\<lambda>s m. m(s \<mapsto> MemberAddr_pb info)) (Services info) (remoteServices h)\<rparr>"

definition initRemoteService :: "MemberInfo list \<Rightarrow> LocalHandler \<Rightarrow> LocalHandler" where
  "initRemoteService ms h = fold addRemoteService ms h"

definition grpc_NewServer :: grpcServer where
  "grpc_NewServer = \<lparr>registered = [], serving = None, stopped = False\<rparr>"

definition RegisterMasterServer :: "grpcServer \<Rightarrow> grpcServer" where
  "RegisterMasterServer s = s\<lparr>registered := registered s @ [MasterService]\<rparr>"

definition RegisterMemberServer :: "grpcServer \<Rightarrow> grpcServer" where
  "RegisterMemberServer s = s\<lparr>registered := registered s @ [MemberService]\<rparr>"

definition Serve :: "string \<Rightarrow> grpcServer \<Rightarrow> grpcServer" where
  "Serve addr s = s\<lparr>serving := Some addr\<rparr>"

definition GracefulStop_server :: "grpcServer \<Rightarrow> grpcServer" where
  "GracefulStop_server s = s\<lparr>stopped := True\<rparr>"

subsection \<open>The two string functions of \<open>initMember\<close>\<close>

text \<open>
  \<open>strings.Contains(s, ":")\<close> and \<open>strings.SplitN(s, ":", 2)\<close>, for the one-byte separator
  the source passes: the split is at the first separator, and the string alone when it
  has none.
\<close>

definition strings_Contains :: "string \<Rightarrow> char \<Rightarrow> bool" where
  "strings_Contains s c = (c \<in> set s)"

definition strings_SplitN2 :: "string \<Rightarrow> char \<Rightarrow> string list" where
  "strings_SplitN2 s c =
     (if c \<in> set s then [takeWhile (\<lambda>x. x \<noteq> c) s, tl (dropWhile (\<lambda>x. x \<noteq> c) s)] else [s])"

definition member_addr_invalid :: "string \<Rightarrow> bool" where
  "member_addr_invalid a =
     (a = '''' \<or> \<not> strings_Contains a (CHR '':'') \<or> strings_SplitN2 a (CHR '':'') ! 0 = '''')"

definition errAdvertiseEmpty :: error where
  "errAdvertiseEmpty = Error ''advertise address cannot be empty in master node''"

definition errMemberAddr :: "string \<Rightarrow> error" where
  "errMemberAddr a = Error (''member address ('' @ a @ '') invalid in cluster mode'')"

subsection \<open>\<open>initMaster\<close> and \<open>initMember\<close>\<close>

definition initMaster :: "env \<Rightarrow> Node \<Rightarrow> error option go_result \<times> Node \<times> event list" where
  "initMaster E n =
     (case net_Listen E (AdvertiseAddr n) of
        Some err \<Rightarrow> (Returns (Some err), n, [NetListen (AdvertiseAddr n)])
      | None \<Rightarrow>
          let n1 = n\<lparr>masterServer := Some (Serve (AdvertiseAddr n) (RegisterMasterServer grpc_NewServer)),
                     memberServer := Some (RegisterMemberServer grpc_NewServer),
                     rpcClient := Some RPCClient\<rparr>;
              tr = [NetListen (AdvertiseAddr n), GoServe TheMasterServer (AdvertiseAddr n)]
          in (case handler n1 of
                None \<Rightarrow> (Panics nil_dereference, n1, tr)
              | Some h \<Rightarrow>
                  let member = \<lparr>isMaster = True,
                                memberInfo = \<lparr>MemberType = ''master'',
                                              MemberAddr_pb = MemberAddr n,
                                              Services = LocalService h\<rparr>\<rparr>
                  in (case cluster n1 of
                        None \<Rightarrow> (Panics nil_dereference, n1, tr)
                      | Some cl \<Rightarrow>
                          (Returns None,
                           n1\<lparr>cluster := Some (setRpcClient_cluster RPCClient
                                                (cl\<lparr>members := members cl @ [member]\<rparr>)),
                              handler := Some (setRpcClient RPCClient h)\<rparr>,
                           tr))))"

definition initMember :: "env \<Rightarrow> Node \<Rightarrow> error option go_result \<times> Node \<times> event list" where
  "initMember E n =
     (if member_addr_invalid (MemberAddr n) then (Returns (Some (errMemberAddr (MemberAddr n))), n, [])
      else
        (case net_Listen E (MemberAddr n) of
           Some err \<Rightarrow> (Returns (Some err), n, [NetListen (MemberAddr n)])
         | None \<Rightarrow>
             let n1 = n\<lparr>memberServer := Some (Serve (MemberAddr n) (RegisterMemberServer grpc_NewServer)),
                        rpcClient := Some RPCClient\<rparr>;
                 tr1 = [NetListen (MemberAddr n), GoServe TheMemberServer (MemberAddr n),
                        GetConnArray (AdvertiseAddr n)]
             in (case getConnArray E (AdvertiseAddr n) of
                   Some err \<Rightarrow> (Returns (Some err), n1, tr1)
                 | None \<Rightarrow>
                     (case handler n1 of
                        None \<Rightarrow> (Panics nil_dereference, n1, tr1)
                      | Some h \<Rightarrow>
                          let request = \<lparr>MemberType = ''member'',
                                         MemberAddr_pb = MemberAddr n,
                                         Services = LocalService h\<rparr>;
                              tr2 = tr1 @ [RegisterRPC (AdvertiseAddr n) request]
                          in (case master_Register E (AdvertiseAddr n) request of
                                Inl err \<Rightarrow> (Returns (Some err), n1, tr2)
                              | Inr resp_Members \<Rightarrow>
                                  (Returns None,
                                   n1\<lparr>handler := Some (setRpcClient RPCClient
                                                        (initRemoteService resp_Members h))\<rparr>,
                                   tr2))))))"

subsection \<open>\<open>Startup\<close>\<close>

text \<open>The first loop of \<open>Startup\<close>: register the components in order, stop at the first error.\<close>

fun register_components ::
  "env \<Rightarrow> LocalHandler \<Rightarrow> CompWithOptions list \<Rightarrow> error option \<times> LocalHandler \<times> event list" where
  "register_components E h [] = (None, h, [])"
| "register_components E h (c # cs) =
     (case handler_register E h (Comp c) (Opts c) of
        Inl err \<Rightarrow> (Some err, h, [HandlerRegister (Comp c)])
      | Inr h' \<Rightarrow>
          (case register_components E h' cs of
             (r, h'', tr) \<Rightarrow> (r, h'', HandlerRegister (Comp c) # tr)))"

text \<open>The branch on the role: master, member, or neither (no cluster wiring).\<close>

definition bootstrap :: "env \<Rightarrow> Node \<Rightarrow> error option go_result \<times> Node \<times> event list" where
  "bootstrap E n =
     (if IsMaster n then initMaster E n
      else if AdvertiseAddr n \<noteq> '''' then initMember E n
      else (Returns None, n, []))"

text \<open>The acceptor the goroutine at the end of \<open>Startup\<close> runs.\<close>

definition select_acceptor :: "Node \<Rightarrow> acceptor" where
  "select_acceptor n =
     (if IsWebsocket n then
        (if length (TSLCertificate n) \<noteq> 0 then listenAndServeWSTLS else listenAndServeWS)
      else listenAndServe)"

definition init_hooks :: "CompWithOptions list \<Rightarrow> event list" where
  "init_hooks cs = map (\<lambda>c. HookInit (Comp c)) cs @ map (\<lambda>c. HookAfterInit (Comp c)) cs"

definition Startup :: "env \<Rightarrow> Node \<Rightarrow> error option go_result \<times> Node \<times> event list" where
  "Startup E n =
     (if IsMaster n \<and> AdvertiseAddr n = '''' then (Returns (Some errAdvertiseEmpty), n, [])
      else
        let n1 = n\<lparr>cluster := Some (newCluster n), handler := Some (NewHandler (Pipeline n))\<rparr>;
            components = Components n
        in (case register_components E (NewHandler (Pipeline n)) components of
              (Some err, h, tr1) \<Rightarrow> (Returns (Some err), n1\<lparr>handler := Some h\<rparr>, tr1)
            | (None, h, tr1) \<Rightarrow>
                (case bootstrap E (n1\<lparr>handler := Some h\<rparr>) of
                   (Returns None, n2, tr2) \<Rightarrow>
                     (Returns None, n2,
                      tr1 @ [Cache] @ tr2 @ init_hooks components @ [GoAcceptor (select_acceptor n2)])
                 | (r, n2, tr2) \<Rightarrow> (r, n2, tr1 @ [Cache] @ tr2))))"

subsection \<open>\<open>Shutdown\<close>\<close>

text \<open>The loop \<open>for i := length - 1; i >= 0; i--\<close> calling one hook on \<open>components[i]\<close>.\<close>

function shutdown_loop :: "(Component \<Rightarrow> event) \<Rightarrow> CompWithOptions list \<Rightarrow> int \<Rightarrow> event list" where
  "shutdown_loop hook cs i =
     (if i \<ge> 0 then hook (Comp (cs ! nat i)) # shutdown_loop hook cs (i - 1) else [])"
  by pat_completeness auto
termination
  by (relation "measure (\<lambda>(hook, cs, i). nat (i + 1))") auto

declare shutdown_loop.simps [simp del]

definition Shutdown :: "Node \<Rightarrow> Node \<times> event list" where
  "Shutdown n =
     (let components = Components n;
          len = int (length components);
          tr = shutdown_loop HookBeforeShutdown components (len - 1) @
               shutdown_loop HookShutdown components (len - 1)
      in (case masterServer n of
            Some s \<Rightarrow> (n\<lparr>masterServer := Some (GracefulStop_server s)\<rparr>, tr @ [GracefulStop TheMasterServer])
          | None \<Rightarrow> (n, tr)))"

subsection \<open>The inbound RPC surface\<close>

text \<open>
  The envelopes of \<open>clusterpb\<close> are opaque here: the four forwarding handlers never look
  at them.
\<close>

record Envelope =
  target :: string
  payload :: string

record MemberHandleResponse =
  response_error :: "string option"



definition HandleRequest :: "Node \<Rightarrow> Envelope \<Rightarrow> (MemberHandleResponse \<times> error option) go_result" where
  "HandleRequest n req = Panics ''implement me''"

definition HandleNotify :: "Node \<Rightarrow> Envelope \<Rightarrow> (MemberHandleResponse \<times> error option) go_result" where
  "HandleNotify n req = Panics ''implement me''"

definition HandlePush :: "Node \<Rightarrow> Envelope \<Rightarrow> (MemberHandleResponse \<times> error option) go_result" where
  "HandlePush n req = Panics ''implement me''"

definition HandleResponse :: "Node \<Rightarrow> Envelope \<Rightarrow> (MemberHandleResponse \<times> error option) go_result" where
  "HandleResponse n req = Panics ''implement me''"


subsection \<open>Auxiliary predicates and sample configurations\<close>

definition same_config :: "Node \<Rightarrow> Node \<Rightarrow> bool" where
  "same_config n n' =
     (IsMaster n' = IsMaster n \<and> AdvertiseAddr n' = AdvertiseAddr n \<and> MemberAddr n' = MemberAddr n \<and>
      ServerAddr n' = ServerAddr n \<and> Components n' = Components n \<and> IsWebsocket n' = IsWebsocket n \<and>
      TSLCertificate n' = TSLCertificate n \<and> TSLKey n' = TSLKey n \<and> Pipeline n' = Pipeline n)"

definition quiet :: "event \<Rightarrow> bool" where
  "quiet e = (\<not> is_hook e \<and> \<not> is_acceptor e \<and> \<not> is_stop e)"

definition env_ok :: env where
  "env_ok =
     \<lparr>handler_register = (\<lambda>h c opts. Inr (h\<lparr>localServices := localServices h @ [c]\<rparr>)),
      net_Listen = (\<lambda>a. None),
      getConnArray = (\<lambda>a. None),
      master_Register = (\<lambda>a info.
         Inr [\<lparr>MemberType = ''master'', MemberAddr_pb = ''127.0.0.1:9002'', Services = [''gate'']\<rparr>,
              info])\<rparr>"

definition node_zero :: Node where
  "node_zero =
     \<lparr>IsMaster = False, AdvertiseAddr = '''', MemberAddr = '''', ServerAddr = '''',
      Components = [], IsWebsocket = False, TSLCertificate = '''', TSLKey = '''', Pipeline = '''',
      cluster = None, handler = None, masterServer = None, memberServer = None, rpcClient = None\<rparr>"

definition comps_ABC :: "CompWithOptions list" where
  "comps_ABC = [\<lparr>Comp = ''A'', Opts = []\<rparr>, \<lparr>Comp = ''B'', Opts = []\<rparr>, \<lparr>Comp = ''C'', Opts = []\<rparr>]"

definition master_node :: Node where
  "master_node =
     node_zero\<lparr>IsMaster := True, AdvertiseAddr := ''127.0.0.1:9000'', MemberAddr := ''127.0.0.1:9001'',
               ServerAddr := '':3250'', Components := comps_ABC\<rparr>"

definition member_node :: Node where
  "member_node =
     node_zero\<lparr>AdvertiseAddr := ''127.0.0.1:9000'', MemberAddr := ''127.0.0.1:9001'',
               ServerAddr := '':3251'', Components := [\<lparr>Comp = ''echo'', Opts = []\<rparr>]\<rparr>"

definition env_register_fails :: env where
  "env_register_fails =
     env_ok\<lparr>handler_register := (\<lambda>h c opts. Inl (Error ''component registration failed''))\<rparr>"

definition env_dial_fails :: env where
  "env_dial_fails = env_ok\<lparr>getConnArray := (\<lambda>a. Some (Error ''dial failed''))\<rparr>"

definition env_rpc_fails :: env where
  "env_rpc_fails = env_ok\<lparr>master_Register := (\<lambda>a info. Inl (Error ''register rpc failed''))\<rparr>"

definition member_noaddr :: Node where
  "member_noaddr = member_node\<lparr>MemberAddr := ''''\<rparr>"

definition member_noport :: Node where
  "member_noport = member_node\<lparr>MemberAddr := ''noport''\<rparr>"

definition master_noadvertise :: Node where
  "master_noadvertise = master_node\<lparr>AdvertiseAddr := ''''\<rparr>"

definition master_noaddr :: Node where
  "master_noaddr = master_node\<lparr>MemberAddr := ''''\<rparr>"

definition master_noport :: Node where
  "master_noport = master_node\<lparr>MemberAddr := ''noport''\<rparr>"

definition ws_cert_only :: Node where
  "ws_cert_only = node_zero\<lparr>ServerAddr := '':3250'', IsWebsocket := True, TSLCertificate := ''cert.pem''\<rparr>"

text \<open>The error \<open>Startup\<close> reports for a configuration it rejects.\<close>

definition is_ConfigError :: "Node \<Rightarrow> error \<Rightarrow> bool" where
  "is_ConfigError n err = (err = errAdvertiseEmpty \<or> err = errMemberAddr (MemberAddr n))"

text \<open>
  Modelled from the spec: a well-formed \<open>host:port\<close>, in the spec's words a syntactically
  non-empty \<open>host:port\<close>, is a non-empty host without a colon, one colon, and a non-empty
  port without a colon. (Bracketed IPv6 hosts are not considered.)
\<close>

definition host_port_form :: "string \<Rightarrow> bool" where
  "host_port_form a =
     (let host = takeWhile (\<lambda>c. c \<noteq> CHR '':'') a;
          rest = dropWhile (\<lambda>c. c \<noteq> CHR '':'') a
      in host \<noteq> '''' \<and> rest \<noteq> '''' \<and> tl rest \<noteq> '''' \<and> CHR '':'' \<notin> set (tl rest))"

text \<open>A server that was handed a listener and has not been stopped.\<close>

definition is_serving :: "grpcServer option \<Rightarrow> bool" where
  "is_serving sp = (case sp of None \<Rightarrow> False | Some s \<Rightarrow> serving s \<noteq> None \<and> \<not> stopped s)"

definition member_emptyport :: Node where
  "member_emptyport = member_node\<lparr>MemberAddr := ''127.0.0.1:''\<rparr>"



section \<open>Properties of the loops and of the bootstrap\<close>

lemma register_components_trace:
  "register_components E h cs = (r, h', tr) \<Longrightarrow>
     \<exists>k. tr = map (\<lambda>c. HandlerRegister (Comp c)) (take k cs)"
proof (induction cs arbitrary: h r h' tr)
  case Nil
  then show ?case by simp
next
  case (Cons c cs)
  show ?case
  proof (cases "handler_register E h (Comp c) (Opts c)")
    case (Inl err)
    with Cons.prems have "tr = map (\<lambda>c. HandlerRegister (Comp c)) (take 1 (c # cs))" by auto
    then show ?thesis by blast
  next
    case (Inr h1)
    obtain r2 h2 tr2 where rec: "register_components E h1 cs = (r2, h2, tr2)"
      by (cases "register_components E h1 cs") auto
    from Cons.IH [OF rec] obtain k where k: "tr2 = map (\<lambda>c. HandlerRegister (Comp c)) (take k cs)"
      by blast
    from Cons.prems Inr rec have "tr = HandlerRegister (Comp c) # tr2" by simp
    with k have "tr = map (\<lambda>c. HandlerRegister (Comp c)) (take (Suc k) (c # cs))" by simp
    then show ?thesis by blast
  qed
qed

lemma register_components_ok_trace:
  "register_components E h cs = (None, h', tr) \<Longrightarrow> tr = map (\<lambda>c. HandlerRegister (Comp c)) cs"
proof (induction cs arbitrary: h h' tr)
  case Nil
  then show ?case by simp
next
  case (Cons c cs)
  then show ?case by (auto split: sum.splits prod.splits)
qed

lemma shutdown_loop_below: "i < 0 \<Longrightarrow> shutdown_loop hook cs i = []"
  by (subst shutdown_loop.simps) simp

lemma shutdown_loop_take:
  "k \<le> length cs \<Longrightarrow>
     shutdown_loop hook cs (int k - 1) = map (\<lambda>c. hook (Comp c)) (rev (take k cs))"
proof (induction k)
  case 0
  then show ?case by (simp add: shutdown_loop_below)
next
  case (Suc k)
  then have lt: "k < length cs" by simp
  have "shutdown_loop hook cs (int (Suc k) - 1) = hook (Comp (cs ! k)) # shutdown_loop hook cs (int k - 1)"
    by (subst shutdown_loop.simps) simp
  also have "\<dots> = hook (Comp (cs ! k)) # map (\<lambda>c. hook (Comp c)) (rev (take k cs))"
    using Suc by simp
  also have "\<dots> = map (\<lambda>c. hook (Comp c)) (rev (take (Suc k) cs))"
    using lt by (simp add: take_Suc_conv_app_nth)
  finally show ?case .
qed

lemma shutdown_loop_rev:
  "shutdown_loop hook cs (int (length cs) - 1) = map (\<lambda>c. hook (Comp c)) (rev cs)"
  using shutdown_loop_take [of "length cs" cs hook] by simp

lemma initMaster_config: "initMaster E n = (r, n', tr) \<Longrightarrow> same_config n n'"
  by (auto simp: initMaster_def same_config_def Let_def split: option.splits)

lemma initMember_config: "initMember E n = (r, n', tr) \<Longrightarrow> same_config n n'"
  by (auto simp: initMember_def same_config_def Let_def split: option.splits if_splits sum.splits)

lemma bootstrap_config: "bootstrap E n = (r, n', tr) \<Longrightarrow> same_config n n'"
  unfolding bootstrap_def
  by (auto split: if_splits dest: initMaster_config initMember_config simp: same_config_def)

lemma initMaster_quiet: "initMaster E n = (r, n', tr) \<Longrightarrow> list_all quiet tr"
  by (auto simp: initMaster_def quiet_def Let_def split: option.splits)

lemma initMember_quiet: "initMember E n = (r, n', tr) \<Longrightarrow> list_all quiet tr"
  by (auto simp: initMember_def quiet_def Let_def split: option.splits if_splits sum.splits)

lemma bootstrap_quiet: "bootstrap E n = (r, n', tr) \<Longrightarrow> list_all quiet tr"
  unfolding bootstrap_def
  by (auto split: if_splits dest: initMaster_quiet initMember_quiet)

lemma register_components_quiet:
  "register_components E h cs = (r, h', tr) \<Longrightarrow> list_all quiet tr \<and> list_all (\<lambda>e. \<not> is_network e) tr"
  by (drule register_components_trace) (auto simp: list_all_iff quiet_def)

lemma Startup_ok:
  assumes "Startup E n = (Returns None, n', tr)"
  shows "\<exists>h tr1 tr2.
           register_components E (NewHandler (Pipeline n)) (Components n) = (None, h, tr1) \<and>
           bootstrap E (n\<lparr>cluster := Some (newCluster n), handler := Some h\<rparr>) = (Returns None, n', tr2) \<and>
           tr = tr1 @ [Cache] @ tr2 @ init_hooks (Components n) @ [GoAcceptor (select_acceptor n')]"
  using assms
  by (auto simp: Startup_def Let_def split: if_splits prod.splits option.splits go_result.splits)

lemma Startup_failed:
  assumes run: "Startup E n = (r, n', tr)" and failed: "r \<noteq> Returns None"
  shows "list_all quiet tr"
proof (cases "IsMaster n \<and> AdvertiseAddr n = ''''")
  case True
  with run show ?thesis by (simp add: Startup_def)
next
  case False
  obtain r1 h tr1 where reg:
    "register_components E (NewHandler (Pipeline n)) (Components n) = (r1, h, tr1)"
    by (cases "register_components E (NewHandler (Pipeline n)) (Components n)") auto
  have q1: "list_all quiet tr1" using register_components_quiet [OF reg] by simp
  show ?thesis
  proof (cases r1)
    case (Some err)
    with run False reg have "tr = tr1" by (simp add: Startup_def Let_def)
    with q1 show ?thesis by simp
  next
    case None
    obtain r2 n2 tr2 where boot:
      "bootstrap E (n\<lparr>cluster := Some (newCluster n), handler := Some h\<rparr>) = (r2, n2, tr2)"
      by (cases "bootstrap E (n\<lparr>cluster := Some (newCluster n), handler := Some h\<rparr>)") auto
    have q2: "list_all quiet tr2" using bootstrap_quiet [OF boot] .
    from run False reg None boot failed have "tr = tr1 @ [Cache] @ tr2"
      by (auto simp: Startup_def Let_def split: go_result.splits option.splits)
    with q1 q2 show ?thesis by (simp add: quiet_def)
  qed
qed

lemmas run_defs =
  Startup_def bootstrap_def initMaster_def initMember_def Let_def
  env_ok_def node_zero_def comps_ABC_def master_node_def member_node_def
  env_register_fails_def env_dial_fails_def env_rpc_fails_def member_noaddr_def member_noport_def
  master_noadvertise_def master_noaddr_def master_noport_def ws_cert_only_def
  member_emptyport_def
  errAdvertiseEmpty_def errMemberAddr_def
  NewHandler_def newCluster_def LocalService_def setRpcClient_def setRpcClient_cluster_def
  grpc_NewServer_def RegisterMasterServer_def RegisterMemberServer_def Serve_def
  member_addr_invalid_def strings_Contains_def strings_SplitN2_def init_hooks_def
  select_acceptor_def initRemoteService_def addRemoteService_def

lemma master_run:
  "Startup env_ok master_node =
     (Returns None,
      master_node\<lparr>
        cluster := Some \<lparr>members = [\<lparr>isMaster = True,
                                     memberInfo = \<lparr>MemberType = ''master'', MemberAddr_pb = ''127.0.0.1:9001'',
                                                   Services = [''A'', ''B'', ''C'']\<rparr>\<rparr>],
                        cluster_rpcClient = Some RPCClient\<rparr>,
        handler := Some \<lparr>pipeline = '''', localServices = [''A'', ''B'', ''C''],
                        remoteServices = Map.empty, handler_rpcClient = Some RPCClient\<rparr>,
        masterServer := Some \<lparr>registered = [MasterService], serving = Some ''127.0.0.1:9000'', stopped = False\<rparr>,
        memberServer := Some \<lparr>registered = [MemberService], serving = None, stopped = False\<rparr>,
        rpcClient := Some RPCClient\<rparr>,
      [HandlerRegister ''A'', HandlerRegister ''B'', HandlerRegister ''C'', Cache,
       NetListen ''127.0.0.1:9000'', GoServe TheMasterServer ''127.0.0.1:9000'',
       HookInit ''A'', HookInit ''B'', HookInit ''C'',
       HookAfterInit ''A'', HookAfterInit ''B'', HookAfterInit ''C'',
       GoAcceptor listenAndServe])"
  by (simp add: run_defs)

lemma initMaster_ok:
  assumes "initMaster E n = (Returns None, n', tr)"
  shows "\<exists>cl h. cluster n = Some cl \<and> handler n = Some h \<and> net_Listen E (AdvertiseAddr n) = None \<and>
           n' = n\<lparr>masterServer := Some (Serve (AdvertiseAddr n) (RegisterMasterServer grpc_NewServer)),
                   memberServer := Some (RegisterMemberServer grpc_NewServer),
                   rpcClient := Some RPCClient,
                   cluster := Some (setRpcClient_cluster RPCClient
                     (cl\<lparr>members := members cl @
                        [\<lparr>isMaster = True,
                          memberInfo = \<lparr>MemberType = ''master'', MemberAddr_pb = MemberAddr n,
                                        Services = LocalService h\<rparr>\<rparr>]\<rparr>)),
                   handler := Some (setRpcClient RPCClient h)\<rparr> \<and>
           tr = [NetListen (AdvertiseAddr n), GoServe TheMasterServer (AdvertiseAddr n)]"
  using assms by (auto simp: initMaster_def Let_def split: option.splits)

section \<open>The master's own entry in the topology\<close>

text \<open>
  Claim C1. For every master configuration, when \<open>Startup\<close> has returned \<open>nil\<close> the
  member list of the node's cluster holds the entry of the node itself: \<open>isMaster\<close> is
  true, the member type is \<open>master\<close>, the member address is the configured \<open>MemberAddr\<close>
  and the services are the local services of the handler. The entry is appended by
  \<open>initMaster\<close> itself: the run dials no peer and calls no registration RPC.
\<close>

theorem C1_master_self_entry:
  assumes master: "IsMaster n" and run: "Startup E n = (Returns None, n', tr)"
  shows "\<exists>cl h m. cluster n' = Some cl \<and> handler n' = Some h \<and> members cl = [m] \<and>
           isMaster m \<and> MemberType (memberInfo m) = ''master'' \<and>
           MemberAddr_pb (memberInfo m) = MemberAddr n \<and> MemberAddr n' = MemberAddr n \<and>
           Services (memberInfo m) = LocalService h \<and>
           list_all (\<lambda>e. \<not> is_registration_rpc e) tr"
proof -
  from Startup_ok [OF run] obtain h tr1 tr2 where
    reg: "register_components E (NewHandler (Pipeline n)) (Components n) = (None, h, tr1)" and
    boot: "bootstrap E (n\<lparr>cluster := Some (newCluster n), handler := Some h\<rparr>) = (Returns None, n', tr2)" and
    tr: "tr = tr1 @ [Cache] @ tr2 @ init_hooks (Components n) @ [GoAcceptor (select_acceptor n')]"
    by blast
  let ?n1 = "n\<lparr>cluster := Some (newCluster n), handler := Some h\<rparr>"
  from boot master have "initMaster E ?n1 = (Returns None, n', tr2)"
    by (simp add: bootstrap_def)
  from initMaster_ok [OF this] have
    n': "n' = ?n1\<lparr>masterServer := Some (Serve (AdvertiseAddr ?n1) (RegisterMasterServer grpc_NewServer)),
                   memberServer := Some (RegisterMemberServer grpc_NewServer),
                   rpcClient := Some RPCClient,
                   cluster := Some (setRpcClient_cluster RPCClient
                     ((newCluster n)\<lparr>members := members (newCluster n) @
                        [\<lparr>isMaster = True,
                          memberInfo = \<lparr>MemberType = ''master'', MemberAddr_pb = MemberAddr ?n1,
                                        Services = LocalService h\<rparr>\<rparr>]\<rparr>)),
                   handler := Some (setRpcClient RPCClient h)\<rparr>" and
    tr2: "tr2 = [NetListen (AdvertiseAddr ?n1), GoServe TheMasterServer (AdvertiseAddr ?n1)]"
    by auto
  have tr1: "tr1 = map (\<lambda>c. HandlerRegister (Comp c)) (Components n)"
    using register_components_ok_trace [OF reg] .
  have "list_all (\<lambda>e. \<not> is_registration_rpc e) tr"
    unfolding tr tr1 tr2 init_hooks_def by (auto simp: list_all_iff)
  then show ?thesis
    unfolding n'
    by (simp add: setRpcClient_cluster_def newCluster_def setRpcClient_def LocalService_def)
qed

theorem C1_master_self_entry_witness:
  "IsMaster master_node \<and> fst (Startup env_ok master_node) = Returns None \<and>
   (\<exists>cl m. cluster (fst (snd (Startup env_ok master_node))) = Some cl \<and> members cl = [m] \<and>
      isMaster m \<and> MemberType (memberInfo m) = ''master'' \<and>
      MemberAddr_pb (memberInfo m) = ''127.0.0.1:9001'')"
proof -
  have master: "IsMaster master_node" by (simp add: master_node_def node_zero_def)
  obtain n' tr where run: "Startup env_ok master_node = (Returns None, n', tr)"
    using master_run by blast
  have addr: "MemberAddr master_node = ''127.0.0.1:9001''" by (simp add: master_node_def node_zero_def)
  from C1_master_self_entry [OF master run] obtain cl m where
    "cluster n' = Some cl" "members cl = [m]" "isMaster m" "MemberType (memberInfo m) = ''master''"
    "MemberAddr_pb (memberInfo m) = MemberAddr master_node"
    by blast
  with addr have "\<exists>cl m. cluster n' = Some cl \<and> members cl = [m] \<and>
      isMaster m \<and> MemberType (memberInfo m) = ''master'' \<and>
      MemberAddr_pb (memberInfo m) = ''127.0.0.1:9001''"
    by auto
  with master show ?thesis unfolding run by simp
qed

section \<open>Order of the component hooks\<close>

text \<open>
  Claim C2. A \<open>Startup\<close> that returns \<open>nil\<close> ends with \<open>Init\<close> on every component in
  registration order, then \<open>AfterInit\<close> on every component in registration order, then
  the launch of the acceptor; no hook runs and no acceptor is launched before that.
  \<open>Shutdown\<close> runs \<open>BeforeShutdown\<close> on every component in reverse registration order,
  then \<open>Shutdown\<close> on every component in reverse registration order, and no hook
  after that.
\<close>

theorem C2_hook_order:
  assumes run: "Startup E n = (Returns None, n', tr)"
  shows "(\<exists>pre. tr = pre @ map (\<lambda>c. HookInit (Comp c)) (Components n) @
                     map (\<lambda>c. HookAfterInit (Comp c)) (Components n) @
                     [GoAcceptor (select_acceptor n')] \<and>
                list_all (\<lambda>e. \<not> is_hook e \<and> \<not> is_acceptor e) pre) \<and>
         (\<exists>post. snd (Shutdown m) =
                    map (\<lambda>c. HookBeforeShutdown (Comp c)) (rev (Components m)) @
                    map (\<lambda>c. HookShutdown (Comp c)) (rev (Components m)) @ post \<and>
                  list_all (\<lambda>e. \<not> is_hook e) post)"
proof
  from Startup_ok [OF run] obtain h tr1 tr2 where
    reg: "register_components E (NewHandler (Pipeline n)) (Components n) = (None, h, tr1)" and
    boot: "bootstrap E (n\<lparr>cluster := Some (newCluster n), handler := Some h\<rparr>) = (Returns None, n', tr2)" and
    tr: "tr = tr1 @ [Cache] @ tr2 @ init_hooks (Components n) @ [GoAcceptor (select_acceptor n')]"
    by blast
  have "list_all quiet tr1" using register_components_quiet [OF reg] by simp
  moreover have "list_all quiet tr2" using bootstrap_quiet [OF boot] .
  ultimately have "list_all (\<lambda>e. \<not> is_hook e \<and> \<not> is_acceptor e) (tr1 @ [Cache] @ tr2)"
    by (auto simp: list_all_iff quiet_def)
  moreover have "tr = (tr1 @ [Cache] @ tr2) @ map (\<lambda>c. HookInit (Comp c)) (Components n) @
                     map (\<lambda>c. HookAfterInit (Comp c)) (Components n) @
                     [GoAcceptor (select_acceptor n')]"
    unfolding tr init_hooks_def by simp
  ultimately show "\<exists>pre. tr = pre @ map (\<lambda>c. HookInit (Comp c)) (Components n) @
                     map (\<lambda>c. HookAfterInit (Comp c)) (Components n) @
                     [GoAcceptor (select_acceptor n')] \<and>
                list_all (\<lambda>e. \<not> is_hook e \<and> \<not> is_acceptor e) pre"
    by blast
next
  have "snd (Shutdown m) =
          map (\<lambda>c. HookBeforeShutdown (Comp c)) (rev (Components m)) @
          map (\<lambda>c. HookShutdown (Comp c)) (rev (Components m)) @
          (case masterServer m of None \<Rightarrow> [] | Some s \<Rightarrow> [GracefulStop TheMasterServer])"
    by (simp add: Shutdown_def Let_def shutdown_loop_rev split: option.splits)
  moreover have "list_all (\<lambda>e. \<not> is_hook e)
          (case masterServer m of None \<Rightarrow> [] | Some s \<Rightarrow> [GracefulStop TheMasterServer])"
    by (simp split: option.splits)
  ultimately show "\<exists>post. snd (Shutdown m) =
                    map (\<lambda>c. HookBeforeShutdown (Comp c)) (rev (Components m)) @
                    map (\<lambda>c. HookShutdown (Comp c)) (rev (Components m)) @ post \<and>
                  list_all (\<lambda>e. \<not> is_hook e) post"
    by blast
qed

theorem C2_hook_order_witness:
  "fst (Startup env_ok master_node) = Returns None \<and>
   (\<exists>pre. snd (snd (Startup env_ok master_node)) =
            pre @ [HookInit ''A'', HookInit ''B'', HookInit ''C'',
                   HookAfterInit ''A'', HookAfterInit ''B'', HookAfterInit ''C'',
                   GoAcceptor listenAndServe]) \<and>
   (\<exists>post. snd (Shutdown (fst (snd (Startup env_ok master_node)))) =
            [HookBeforeShutdown ''C'', HookBeforeShutdown ''B'', HookBeforeShutdown ''A'',
             HookShutdown ''C'', HookShutdown ''B'', HookShutdown ''A''] @ post)"
proof -
  obtain n' tr where run: "Startup env_ok master_node = (Returns None, n', tr)"
    using master_run by blast
  have comps: "Components master_node = comps_ABC" "Components n' = comps_ABC"
    using run unfolding master_run by (auto simp: master_node_def node_zero_def)
  have acc: "select_acceptor n' = listenAndServe"
    using run unfolding master_run by (auto simp: select_acceptor_def master_node_def node_zero_def)
  from C2_hook_order [OF run, of n'] obtain pre post where
    "tr = pre @ map (\<lambda>c. HookInit (Comp c)) comps_ABC @
            map (\<lambda>c. HookAfterInit (Comp c)) comps_ABC @ [GoAcceptor listenAndServe]"
    "snd (Shutdown n') = map (\<lambda>c. HookBeforeShutdown (Comp c)) (rev comps_ABC) @
            map (\<lambda>c. HookShutdown (Comp c)) (rev comps_ABC) @ post"
    unfolding comps acc by blast
  then have "(\<exists>pre. tr = pre @ [HookInit ''A'', HookInit ''B'', HookInit ''C'',
                   HookAfterInit ''A'', HookAfterInit ''B'', HookAfterInit ''C'',
                   GoAcceptor listenAndServe]) \<and>
     (\<exists>post. snd (Shutdown n') =
            [HookBeforeShutdown ''C'', HookBeforeShutdown ''B'', HookBeforeShutdown ''A'',
             HookShutdown ''C'', HookShutdown ''B'', HookShutdown ''A''] @ post)"
    by (simp add: comps_ABC_def)
  then show ?thesis unfolding run by simp
qed

section \<open>Configuration errors come before any network operation\<close>

lemma member_addr_invalid_iff:
  "member_addr_invalid a \<longleftrightarrow> a = '''' \<or> CHR '':'' \<notin> set a \<or> hd a = CHR '':''"
proof (cases a)
  case Nil
  then show ?thesis by (simp add: member_addr_invalid_def)
next
  case (Cons c cs)
  then show ?thesis
    by (auto simp: member_addr_invalid_def strings_Contains_def strings_SplitN2_def)
qed

lemma member_addr_invalid_not_host_port:
  "member_addr_invalid a \<Longrightarrow> \<not> host_port_form a"
proof (cases a)
  case Nil
  then show ?thesis by (simp add: host_port_form_def)
next
  case (Cons c cs)
  assume "member_addr_invalid a"
  with Cons have "CHR '':'' \<notin> set a \<or> c = CHR '':''"
    by (simp add: member_addr_invalid_iff)
  then show ?thesis
  proof
    assume "CHR '':'' \<notin> set a"
    then have "dropWhile (\<lambda>c. c \<noteq> CHR '':'') a = ''''" by auto
    then show ?thesis by (simp add: host_port_form_def Let_def)
  next
    assume "c = CHR '':''"
    with Cons show ?thesis by (simp add: host_port_form_def Let_def)
  qed
qed

lemma initMember_invalid:
  "member_addr_invalid (MemberAddr n) \<Longrightarrow>
     initMember E n = (Returns (Some (errMemberAddr (MemberAddr n))), n, [])"
  by (simp add: initMember_def)

text \<open>
  Claim C3, as the code has it. Let the node be a master with an empty advertise address,
  or a member (not a master, advertise address set) whose \<open>MemberAddr\<close> is rejected by
  \<open>initMember\<close>: empty, without a colon, or with nothing before its first colon; none of
  these is of the form \<open>host:port\<close>. Then \<open>Startup\<close> returns an error and its trace holds
  no network operation: no listener, no served server, no dial, no registration call, no
  acceptor. The error is the configuration error, except that a member whose component
  registration fails first gets that registration error. Member addresses that are
  malformed in another way are not covered.
\<close>

theorem C3_config_error_no_network:
  assumes bad: "IsMaster n \<and> AdvertiseAddr n = '''' \<or>
                \<not> IsMaster n \<and> AdvertiseAddr n \<noteq> '''' \<and> member_addr_invalid (MemberAddr n)"
    and run: "Startup E n = (r, n', tr)"
  shows "r = Returns (Some (if IsMaster n then errAdvertiseEmpty
                            else case fst (register_components E (NewHandler (Pipeline n)) (Components n)) of
                                   Some err \<Rightarrow> err
                                 | None \<Rightarrow> errMemberAddr (MemberAddr n))) \<and>
         list_all (\<lambda>e. \<not> is_network e) tr"
proof (cases "IsMaster n")
  case True
  with bad have "AdvertiseAddr n = ''''" by simp
  with True run show ?thesis by (simp add: Startup_def)
next
  case False
  with bad have adv: "AdvertiseAddr n \<noteq> ''''" and inv: "member_addr_invalid (MemberAddr n)"
    by simp_all
  obtain r1 h tr1 where reg:
    "register_components E (NewHandler (Pipeline n)) (Components n) = (r1, h, tr1)"
    by (cases "register_components E (NewHandler (Pipeline n)) (Components n)") auto
  have q1: "list_all (\<lambda>e. \<not> is_network e) tr1" using register_components_quiet [OF reg] by simp
  show ?thesis
  proof (cases r1)
    case (Some err)
    with run False reg have "r = Returns (Some err)" "tr = tr1" by (simp_all add: Startup_def Let_def)
    with q1 False reg Some show ?thesis by simp
  next
    case None
    let ?n1 = "n\<lparr>cluster := Some (newCluster n), handler := Some h\<rparr>"
    have "bootstrap E ?n1 = (Returns (Some (errMemberAddr (MemberAddr n))), ?n1, [])"
      using False adv inv initMember_invalid [of ?n1 E] by (simp add: bootstrap_def)
    with run False reg None have "r = Returns (Some (errMemberAddr (MemberAddr n)))" "tr = tr1 @ [Cache]"
      by (simp_all add: Startup_def Let_def)
    with q1 False reg None show ?thesis by simp
  qed
qed

theorem C3_config_error_no_network_witness:
  "\<not> IsMaster member_noport \<and> AdvertiseAddr member_noport \<noteq> '''' \<and>
   member_addr_invalid (MemberAddr member_noport) \<and>
   fst (Startup env_ok member_noport) =
     Returns (Some (Error ''member address (noport) invalid in cluster mode'')) \<and>
   list_all (\<lambda>e. \<not> is_network e) (snd (snd (Startup env_ok member_noport))) \<and>
   IsMaster master_noadvertise \<and> AdvertiseAddr master_noadvertise = '''' \<and>
   fst (Startup env_ok master_noadvertise) =
     Returns (Some (Error ''advertise address cannot be empty in master node'')) \<and>
   list_all (\<lambda>e. \<not> is_network e) (snd (snd (Startup env_ok master_noadvertise)))"
proof -
  have cfg: "\<not> IsMaster member_noport" "AdvertiseAddr member_noport \<noteq> ''''"
    "member_addr_invalid (MemberAddr member_noport)"
    by (simp_all add: run_defs)
  then have bad: "IsMaster member_noport \<and> AdvertiseAddr member_noport = '''' \<or>
      \<not> IsMaster member_noport \<and> AdvertiseAddr member_noport \<noteq> '''' \<and>
      member_addr_invalid (MemberAddr member_noport)"
    by simp
  obtain r n' tr where run: "Startup env_ok member_noport = (r, n', tr)"
    by (cases "Startup env_ok member_noport") auto
  have reg: "fst (register_components env_ok (NewHandler (Pipeline member_noport)) (Components member_noport)) = None"
    by (simp add: run_defs)
  from C3_config_error_no_network [OF bad run] cfg reg
  have "r = Returns (Some (errMemberAddr (MemberAddr member_noport)))" "list_all (\<lambda>e. \<not> is_network e) tr"
    by simp_all
  moreover have "errMemberAddr (MemberAddr member_noport) = Error ''member address (noport) invalid in cluster mode''"
    by (simp add: run_defs)
  ultimately have member: "fst (Startup env_ok member_noport) =
       Returns (Some (Error ''member address (noport) invalid in cluster mode'')) \<and>
     list_all (\<lambda>e. \<not> is_network e) (snd (snd (Startup env_ok member_noport)))"
    unfolding run by simp
  have mcfg: "IsMaster master_noadvertise" "AdvertiseAddr master_noadvertise = ''''"
    by (simp_all add: run_defs)
  then have mbad: "IsMaster master_noadvertise \<and> AdvertiseAddr master_noadvertise = '''' \<or>
      \<not> IsMaster master_noadvertise \<and> AdvertiseAddr master_noadvertise \<noteq> '''' \<and>
      member_addr_invalid (MemberAddr master_noadvertise)"
    by simp
  obtain r2 n2 tr2 where mrun: "Startup env_ok master_noadvertise = (r2, n2, tr2)"
    by (cases "Startup env_ok master_noadvertise") auto
  from C3_config_error_no_network [OF mbad mrun] mcfg
  have "r2 = Returns (Some errAdvertiseEmpty)" "list_all (\<lambda>e. \<not> is_network e) tr2"
    by simp_all
  then have master: "fst (Startup env_ok master_noadvertise) =
       Returns (Some (Error ''advertise address cannot be empty in master node'')) \<and>
     list_all (\<lambda>e. \<not> is_network e) (snd (snd (Startup env_ok master_noadvertise)))"
    unfolding mrun by (simp add: errAdvertiseEmpty_def)
  from member master cfg mcfg show ?thesis by simp
qed

text \<open>
  The claim as stated fails in two ways. For a member with an empty \<open>MemberAddr\<close> one of
  whose components does not register, \<open>Startup\<close> returns the registration error of line
  71, which is not a configuration error. And the check of line 148 is narrower than the
  form \<open>host:port\<close>: the member address \<open>127.0.0.1:\<close>, with an empty port, is not of that
  form and passes the check, so that \<open>Startup\<close> binds it, serves on it, dials the master,
  registers and returns \<open>nil\<close>.
\<close>

theorem C3_counterexample:
  "\<not> IsMaster member_noaddr \<and> AdvertiseAddr member_noaddr \<noteq> '''' \<and> MemberAddr member_noaddr = '''' \<and>
   fst (Startup env_register_fails member_noaddr) = Returns (Some (Error ''component registration failed'')) \<and>
   \<not> is_ConfigError member_noaddr (Error ''component registration failed'') \<and>
   \<not> IsMaster member_emptyport \<and> AdvertiseAddr member_emptyport \<noteq> '''' \<and>
   MemberAddr member_emptyport = ''127.0.0.1:'' \<and> \<not> host_port_form (MemberAddr member_emptyport) \<and>
   fst (Startup env_ok member_emptyport) = Returns None \<and>
   filter is_network (snd (snd (Startup env_ok member_emptyport))) =
     [NetListen ''127.0.0.1:'', GoServe TheMemberServer ''127.0.0.1:'', GetConnArray ''127.0.0.1:9000'',
      RegisterRPC ''127.0.0.1:9000''
        \<lparr>MemberType = ''member'', MemberAddr_pb = ''127.0.0.1:'', Services = [''echo'']\<rparr>,
      GoAcceptor listenAndServe]"
  by (simp add: run_defs is_ConfigError_def host_port_form_def)

section \<open>A master's member address is not checked\<close>

lemma sample_addresses_rejected_for_member:
  "member_addr_invalid '''' \<and> member_addr_invalid ''noport''"
  by (simp add: member_addr_invalid_def strings_Contains_def)

text \<open>
  Claim C4 asks that \<open>Startup\<close> of a master whose \<open>MemberAddr\<close> is empty or malformed
  fails. \<open>initMaster\<close> never looks at the form of \<open>MemberAddr\<close>: it only copies it into
  the master's own entry. With an advertise address that binds, a master whose
  \<open>MemberAddr\<close> is empty, or is \<open>noport\<close>, starts and announces that address, although
  \<open>initMember\<close> rejects both addresses for a member.
\<close>

theorem C4_master_member_addr_unchecked:
  "IsMaster master_noaddr \<and> MemberAddr master_noaddr = '''' \<and>
   fst (Startup env_ok master_noaddr) = Returns None \<and>
   map_option (\<lambda>cl. map (\<lambda>m. MemberAddr_pb (memberInfo m)) (members cl))
     (cluster (fst (snd (Startup env_ok master_noaddr)))) = Some ['''']  \<and>
   IsMaster master_noport \<and> MemberAddr master_noport = ''noport'' \<and>
   fst (Startup env_ok master_noport) = Returns None \<and>
   map_option (\<lambda>cl. map (\<lambda>m. MemberAddr_pb (memberInfo m)) (members cl))
     (cluster (fst (snd (Startup env_ok master_noport)))) = Some [''noport'']"
  by (simp add: run_defs)

section \<open>A failed registration aborts the start\<close>

lemma initMember_registration_fails:
  assumes valid: "\<not> member_addr_invalid (MemberAddr n)"
    and bind: "net_Listen E (MemberAddr n) = None"
    and h: "handler n = Some h"
    and fails: "getConnArray E (AdvertiseAddr n) = Some err \<or>
                getConnArray E (AdvertiseAddr n) = None \<and>
                master_Register E (AdvertiseAddr n)
                  \<lparr>MemberType = ''member'', MemberAddr_pb = MemberAddr n, Services = LocalService h\<rparr> = Inl err"
  shows "initMember E n =
           (Returns (Some err),
            n\<lparr>memberServer := Some \<lparr>registered = [MemberService], serving = Some (MemberAddr n),
                                     stopped = False\<rparr>,
              rpcClient := Some RPCClient\<rparr>,
            [NetListen (MemberAddr n), GoServe TheMemberServer (MemberAddr n),
             GetConnArray (AdvertiseAddr n)] @
            (if getConnArray E (AdvertiseAddr n) = None
             then [RegisterRPC (AdvertiseAddr n)
                     \<lparr>MemberType = ''member'', MemberAddr_pb = MemberAddr n, Services = LocalService h\<rparr>]
             else []))"
  using assms
  by (auto simp: initMember_def Let_def Serve_def RegisterMemberServer_def grpc_NewServer_def)

text \<open>
  Claim C5, as the code has it. Take a member node (not a master, advertise address set)
  whose start reaches the registration: its components register, its \<open>MemberAddr\<close> passes
  the check and binds. If \<open>getConnArray\<close> on the advertise address fails, or the
  \<open>Register\<close> call on the master fails, \<open>Startup\<close> returns that very error, and its trace
  holds no \<open>Init\<close> or \<open>AfterInit\<close> hook and no launch of an acceptor. The handler is left
  as the registration of the components made it: \<open>initMember\<close> gives it no RPC client
  and no remote service. The node is left half started, though: the member server,
  bound to \<open>MemberAddr\<close> and handed to its goroutine before the registration, is still
  serving, and nothing stops it.
\<close>

theorem C5_registration_failure_aborts:
  assumes member: "\<not> IsMaster n" "AdvertiseAddr n \<noteq> ''''"
    and reg: "register_components E (NewHandler (Pipeline n)) (Components n) = (None, h, tr1)"
    and valid: "\<not> member_addr_invalid (MemberAddr n)"
    and bind: "net_Listen E (MemberAddr n) = None"
    and fails: "getConnArray E (AdvertiseAddr n) = Some err \<or>
                getConnArray E (AdvertiseAddr n) = None \<and>
                master_Register E (AdvertiseAddr n)
                  \<lparr>MemberType = ''member'', MemberAddr_pb = MemberAddr n, Services = LocalService h\<rparr> = Inl err"
  shows "Startup E n =
           (Returns (Some err),
            n\<lparr>cluster := Some (newCluster n), handler := Some h,
              memberServer := Some \<lparr>registered = [MemberService], serving = Some (MemberAddr n),
                                     stopped = False\<rparr>,
              rpcClient := Some RPCClient\<rparr>,
            tr1 @ [Cache, NetListen (MemberAddr n), GoServe TheMemberServer (MemberAddr n),
                   GetConnArray (AdvertiseAddr n)] @
            (if getConnArray E (AdvertiseAddr n) = None
             then [RegisterRPC (AdvertiseAddr n)
                     \<lparr>MemberType = ''member'', MemberAddr_pb = MemberAddr n, Services = LocalService h\<rparr>]
             else [])) \<and>
         list_all (\<lambda>e. \<not> is_hook e \<and> \<not> is_acceptor e) (snd (snd (Startup E n))) \<and>
         is_serving (memberServer (fst (snd (Startup E n))))"
proof -
  let ?n1 = "n\<lparr>cluster := Some (newCluster n), handler := Some h\<rparr>"
  let ?req = "\<lparr>MemberType = ''member'', MemberAddr_pb = MemberAddr n, Services = LocalService h\<rparr>"
  let ?tail = "if getConnArray E (AdvertiseAddr n) = None then [RegisterRPC (AdvertiseAddr n) ?req] else []"
  have im: "initMember E ?n1 =
      (Returns (Some err),
       ?n1\<lparr>memberServer := Some \<lparr>registered = [MemberService], serving = Some (MemberAddr n),
                                  stopped = False\<rparr>,
            rpcClient := Some RPCClient\<rparr>,
       [NetListen (MemberAddr n), GoServe TheMemberServer (MemberAddr n),
        GetConnArray (AdvertiseAddr n)] @ ?tail)"
    using initMember_registration_fails [of ?n1 E h err] valid bind fails by simp
  with member have boot: "bootstrap E ?n1 =
      (Returns (Some err),
       ?n1\<lparr>memberServer := Some \<lparr>registered = [MemberService], serving = Some (MemberAddr n),
                                  stopped = False\<rparr>,
            rpcClient := Some RPCClient\<rparr>,
       [NetListen (MemberAddr n), GoServe TheMemberServer (MemberAddr n),
        GetConnArray (AdvertiseAddr n)] @ ?tail)"
    by (simp add: bootstrap_def)
  from member reg boot have run: "Startup E n =
      (Returns (Some err),
       ?n1\<lparr>memberServer := Some \<lparr>registered = [MemberService], serving = Some (MemberAddr n),
                                  stopped = False\<rparr>,
            rpcClient := Some RPCClient\<rparr>,
       tr1 @ [Cache, NetListen (MemberAddr n), GoServe TheMemberServer (MemberAddr n),
              GetConnArray (AdvertiseAddr n)] @ ?tail)"
    by (simp add: Startup_def Let_def)
  have "Returns (Some err) \<noteq> (Returns None :: error option go_result)" by simp
  from Startup_failed [OF run this]
  have quiet: "list_all (\<lambda>e. \<not> is_hook e \<and> \<not> is_acceptor e)
      (tr1 @ [Cache, NetListen (MemberAddr n), GoServe TheMemberServer (MemberAddr n),
              GetConnArray (AdvertiseAddr n)] @ ?tail)"
    by (auto simp: list_all_iff quiet_def)
  show ?thesis
    unfolding run using quiet by (simp add: is_serving_def)
qed

theorem C5_registration_failure_aborts_witness:
  "\<not> IsMaster member_node \<and> AdvertiseAddr member_node \<noteq> '''' \<and>
   \<not> member_addr_invalid (MemberAddr member_node) \<and>
   getConnArray env_rpc_fails (AdvertiseAddr member_node) = None \<and>
   fst (Startup env_rpc_fails member_node) = Returns (Some (Error ''register rpc failed'')) \<and>
   list_all (\<lambda>e. \<not> is_hook e \<and> \<not> is_acceptor e) (snd (snd (Startup env_rpc_fails member_node))) \<and>
   is_serving (memberServer (fst (snd (Startup env_rpc_fails member_node)))) \<and>
   getConnArray env_dial_fails (AdvertiseAddr member_node) = Some (Error ''dial failed'') \<and>
   fst (Startup env_dial_fails member_node) = Returns (Some (Error ''dial failed'')) \<and>
   list_all (\<lambda>e. \<not> is_hook e \<and> \<not> is_acceptor e) (snd (snd (Startup env_dial_fails member_node))) \<and>
   is_serving (memberServer (fst (snd (Startup env_dial_fails member_node))))"
proof -
  let ?h = "\<lparr>pipeline = '''', localServices = [''echo''], remoteServices = Map.empty,
              handler_rpcClient = None\<rparr>"
  have member: "\<not> IsMaster member_node" "AdvertiseAddr member_node \<noteq> ''''"
    by (simp_all add: run_defs)
  have valid: "\<not> member_addr_invalid (MemberAddr member_node)"
    by (simp add: run_defs)
  have reg: "register_components env_rpc_fails (NewHandler (Pipeline member_node)) (Components member_node) =
      (None, ?h, [HandlerRegister ''echo''])"
    by (simp add: run_defs)
  have bind: "net_Listen env_rpc_fails (MemberAddr member_node) = None"
    by (simp add: run_defs)
  have dial: "getConnArray env_rpc_fails (AdvertiseAddr member_node) = None"
    by (simp add: run_defs)
  have rpc: "master_Register env_rpc_fails (AdvertiseAddr member_node)
      \<lparr>MemberType = ''member'', MemberAddr_pb = MemberAddr member_node,
       Services = LocalService ?h\<rparr> = Inl (Error ''register rpc failed'')"
    by (simp add: run_defs)
  from dial rpc have fails: "getConnArray env_rpc_fails (AdvertiseAddr member_node) = Some (Error ''register rpc failed'') \<or>
      getConnArray env_rpc_fails (AdvertiseAddr member_node) = None \<and>
      master_Register env_rpc_fails (AdvertiseAddr member_node)
      \<lparr>MemberType = ''member'', MemberAddr_pb = MemberAddr member_node,
       Services = LocalService ?h\<rparr> = Inl (Error ''register rpc failed'')"
    by simp
  from C5_registration_failure_aborts [OF member reg valid bind fails]
  have rpc_case: "fst (Startup env_rpc_fails member_node) = Returns (Some (Error ''register rpc failed'')) \<and>
      list_all (\<lambda>e. \<not> is_hook e \<and> \<not> is_acceptor e) (snd (snd (Startup env_rpc_fails member_node))) \<and>
      is_serving (memberServer (fst (snd (Startup env_rpc_fails member_node))))"
    by (simp add: is_serving_def)
  have reg': "register_components env_dial_fails (NewHandler (Pipeline member_node)) (Components member_node) =
      (None, ?h, [HandlerRegister ''echo''])"
    by (simp add: run_defs)
  have bind': "net_Listen env_dial_fails (MemberAddr member_node) = None"
    by (simp add: run_defs)
  have dial': "getConnArray env_dial_fails (AdvertiseAddr member_node) = Some (Error ''dial failed'')"
    by (simp add: run_defs)
  then have fails': "getConnArray env_dial_fails (AdvertiseAddr member_node) = Some (Error ''dial failed'') \<or>
      getConnArray env_dial_fails (AdvertiseAddr member_node) = None \<and>
      master_Register env_dial_fails (AdvertiseAddr member_node)
      \<lparr>MemberType = ''member'', MemberAddr_pb = MemberAddr member_node,
       Services = LocalService ?h\<rparr> = Inl (Error ''dial failed'')"
    by simp
  from C5_registration_failure_aborts [OF member reg' valid bind' fails']
  have dial_case: "fst (Startup env_dial_fails member_node) = Returns (Some (Error ''dial failed'')) \<and>
      list_all (\<lambda>e. \<not> is_hook e \<and> \<not> is_acceptor e) (snd (snd (Startup env_dial_fails member_node))) \<and>
      is_serving (memberServer (fst (snd (Startup env_dial_fails member_node))))"
    by (simp add: is_serving_def)
  from rpc_case dial_case member valid dial dial' show ?thesis by simp
qed

text \<open>
  The claim as stated fails on the sample member when the \<open>Register\<close> call fails:
  \<open>Startup\<close> returns the error, and the node is started in part. Its member server is
  bound to \<open>127.0.0.1:9001\<close> and serving, and the network operations of the run are that
  bind, the served server, the dial and the registration call.
\<close>

theorem C5_counterexample:
  "\<not> IsMaster member_node \<and> AdvertiseAddr member_node = ''127.0.0.1:9000'' \<and>
   fst (Startup env_rpc_fails member_node) = Returns (Some (Error ''register rpc failed'')) \<and>
   memberServer (fst (snd (Startup env_rpc_fails member_node))) =
     Some \<lparr>registered = [MemberService], serving = Some ''127.0.0.1:9001'', stopped = False\<rparr> \<and>
   is_serving (memberServer (fst (snd (Startup env_rpc_fails member_node)))) \<and>
   filter is_network (snd (snd (Startup env_rpc_fails member_node))) =
     [NetListen ''127.0.0.1:9001'', GoServe TheMemberServer ''127.0.0.1:9001'',
      GetConnArray ''127.0.0.1:9000'',
      RegisterRPC ''127.0.0.1:9000''
        \<lparr>MemberType = ''member'', MemberAddr_pb = ''127.0.0.1:9001'', Services = [''echo'']\<rparr>]"
  by (simp add: run_defs is_serving_def)

section \<open>The listeners of a master\<close>

text \<open>
  Claim C6 asks for two listeners in the master bootstrap, the second bound to
  \<open>MemberAddr\<close> and serving the member surface. \<open>initMaster\<close> creates the member server
  and registers the node on it, but binds only the advertise address and serves only
  the master server: on the sample master the network operations of \<open>Startup\<close> are one
  bind, one served server and the acceptor, and the member server is handed no
  listener.
\<close>

theorem C6_master_single_listener:
  "IsMaster master_node \<and> AdvertiseAddr master_node = ''127.0.0.1:9000'' \<and>
   MemberAddr master_node = ''127.0.0.1:9001'' \<and>
   fst (Startup env_ok master_node) = Returns None \<and>
   filter is_network (snd (snd (Startup env_ok master_node))) =
     [NetListen ''127.0.0.1:9000'', GoServe TheMasterServer ''127.0.0.1:9000'', GoAcceptor listenAndServe] \<and>
   masterServer (fst (snd (Startup env_ok master_node))) =
     Some \<lparr>registered = [MasterService], serving = Some ''127.0.0.1:9000'', stopped = False\<rparr> \<and>
   memberServer (fst (snd (Startup env_ok master_node))) =
     Some \<lparr>registered = [MemberService], serving = None, stopped = False\<rparr>"
  unfolding master_run by (simp add: master_node_def node_zero_def)

section \<open>The choice of the acceptor\<close>

lemma quiet_no_acceptor: "list_all quiet tr \<Longrightarrow> filter is_acceptor tr = []"
  by (induction tr) (auto simp: quiet_def)

lemma select_acceptor_config: "same_config n n' \<Longrightarrow> select_acceptor n' = select_acceptor n"
  by (simp add: same_config_def select_acceptor_def)

text \<open>
  Claim C7, as the code has it. A \<open>Startup\<close> that returns \<open>nil\<close> launches exactly one
  acceptor, and any other \<open>Startup\<close> launches none. The acceptor is the plain
  stream-socket one when \<open>IsWebsocket\<close> is false; when \<open>IsWebsocket\<close> is true it is
  WebSocket over TLS when the certificate path is not empty and plain WebSocket when it
  is empty. The key path takes no part in the choice.
\<close>

theorem C7_one_acceptor:
  "filter is_acceptor (snd (snd (Startup E n))) =
     (if fst (Startup E n) = Returns None
      then [GoAcceptor (if IsWebsocket n
                        then (if TSLCertificate n \<noteq> '''' then listenAndServeWSTLS else listenAndServeWS)
                        else listenAndServe)]
      else [])"
proof -
  obtain r n' tr where run: "Startup E n = (r, n', tr)"
    by (cases "Startup E n") auto
  show ?thesis
  proof (cases "r = Returns None")
    case True
    with run have ok: "Startup E n = (Returns None, n', tr)" by simp
    from Startup_ok [OF ok] obtain h tr1 tr2 where
      reg: "register_components E (NewHandler (Pipeline n)) (Components n) = (None, h, tr1)" and
      boot: "bootstrap E (n\<lparr>cluster := Some (newCluster n), handler := Some h\<rparr>) = (Returns None, n', tr2)" and
      tr: "tr = tr1 @ [Cache] @ tr2 @ init_hooks (Components n) @ [GoAcceptor (select_acceptor n')]"
      by blast
    have f1: "filter is_acceptor tr1 = []"
      using register_components_quiet [OF reg] by (simp add: quiet_no_acceptor)
    have f2: "filter is_acceptor tr2 = []"
      using bootstrap_quiet [OF boot] by (simp add: quiet_no_acceptor)
    have f3: "filter is_acceptor (init_hooks (Components n)) = []"
      by (simp add: init_hooks_def filter_empty_conv)
    have "same_config (n\<lparr>cluster := Some (newCluster n), handler := Some h\<rparr>) n'"
      using bootstrap_config [OF boot] .
    then have "select_acceptor n' = select_acceptor n"
      by (simp add: same_config_def select_acceptor_def)
    with f1 f2 f3 tr have "filter is_acceptor tr = [GoAcceptor (select_acceptor n)]" by simp
    with True run show ?thesis by (simp add: select_acceptor_def)
  next
    case False
    from Startup_failed [OF run False] have "filter is_acceptor tr = []"
      by (rule quiet_no_acceptor)
    with False run show ?thesis by simp
  qed
qed

theorem C7_one_acceptor_witness:
  "fst (Startup env_ok master_node) = Returns None \<and> \<not> IsWebsocket master_node \<and>
   filter is_acceptor (snd (snd (Startup env_ok master_node))) = [GoAcceptor listenAndServe]"
proof -
  have ok: "fst (Startup env_ok master_node) = Returns None" unfolding master_run by simp
  have ws: "\<not> IsWebsocket master_node" by (simp add: master_node_def node_zero_def)
  from C7_one_acceptor [of env_ok master_node] ok ws show ?thesis by simp
qed

text \<open>
  The claim as stated fails for a node with \<open>IsWebsocket\<close> set, a certificate path and
  no key path: the acceptor launched is WebSocket over TLS.
\<close>

theorem C7_counterexample:
  "IsWebsocket ws_cert_only \<and> TSLCertificate ws_cert_only = ''cert.pem'' \<and> TSLKey ws_cert_only = '''' \<and>
   Startup env_ok ws_cert_only =
     (Returns None,
      ws_cert_only\<lparr>cluster := Some (newCluster ws_cert_only), handler := Some (NewHandler '''')\<rparr>,
      [Cache, GoAcceptor listenAndServeWSTLS])"
  by (simp add: run_defs)

section \<open>The forwarding handlers\<close>

text \<open>
  Claim C8 asks that the four forwarding handlers turn a dispatch error into the error
  field of the result envelope and never crash the serving process. In \<open>node.go\<close> each
  of the four is the stub \<open>panic("implement me")\<close>: on every node and every envelope the
  call panics and returns no envelope.
\<close>

theorem C8_handlers_panic:
  "HandleRequest n req = Panics ''implement me'' \<and>
   HandleNotify n req = Panics ''implement me'' \<and>
   HandlePush n req = Panics ''implement me'' \<and>
   HandleResponse n req = Panics ''implement me''"
  by (simp add: HandleRequest_def HandleNotify_def HandlePush_def HandleResponse_def)

section \<open>The announcement of a new member\<close>


lemma Startup_sets_handler:
  assumes "Startup E n = (r, n', tr)" and "memberServer n = None" and "memberServer n' \<noteq> None"
  shows "handler n' \<noteq> None"
proof (cases "IsMaster n \<and> AdvertiseAddr n = ''''")
  case True
  with assms show ?thesis by (simp add: Startup_def)
next
  case False
  with assms(1) show ?thesis
    by (auto simp: Startup_def bootstrap_def initMaster_def initMember_def Let_def
             split: prod.splits option.splits go_result.splits if_splits sum.splits)
qed





section \<open>What \<open>Shutdown\<close> changes\<close>

lemma initMember_masterServer: "initMember E n = (r, n', tr) \<Longrightarrow> masterServer n' = masterServer n"
  by (auto simp: initMember_def Let_def split: option.splits if_splits sum.splits)

lemma initMember_ok_memberServer:
  assumes "initMember E n = (Returns None, n', tr)"
  shows "memberServer n' =
           Some \<lparr>registered = [MemberService], serving = Some (MemberAddr n), stopped = False\<rparr>"
  using assms
  by (auto simp: initMember_def Let_def Serve_def RegisterMemberServer_def grpc_NewServer_def
           split: option.splits if_splits sum.splits)

lemma bootstrap_nonmaster_masterServer:
  "bootstrap E n = (r, n', tr) \<Longrightarrow> \<not> IsMaster n \<Longrightarrow> masterServer n' = masterServer n"
  by (auto simp: bootstrap_def split: if_splits dest: initMember_masterServer)

lemma Startup_nonmaster_masterServer:
  assumes run: "Startup E n = (r, n', tr)" and nonmaster: "\<not> IsMaster n"
  shows "masterServer n' = masterServer n"
proof -
  obtain r1 h tr1 where reg:
    "register_components E (NewHandler (Pipeline n)) (Components n) = (r1, h, tr1)"
    by (cases "register_components E (NewHandler (Pipeline n)) (Components n)") auto
  show ?thesis
  proof (cases r1)
    case (Some err)
    with run nonmaster reg show ?thesis by (auto simp: Startup_def Let_def)
  next
    case None
    let ?n1 = "n\<lparr>cluster := Some (newCluster n), handler := Some h\<rparr>"
    obtain r2 n2 tr2 where boot: "bootstrap E ?n1 = (r2, n2, tr2)"
      by (cases "bootstrap E ?n1") auto
    from bootstrap_nonmaster_masterServer [OF boot] nonmaster
    have "masterServer n2 = masterServer n" by simp
    moreover from run nonmaster reg None boot have "n' = n2"
      by (auto simp: Startup_def Let_def split: go_result.splits option.splits)
    ultimately show ?thesis by simp
  qed
qed

text \<open>
  Claim C10. \<open>Shutdown\<close> emits the \<open>BeforeShutdown\<close> hooks and the \<open>Shutdown\<close> hooks in
  reverse registration order and, when \<open>masterServer\<close> is not \<open>nil\<close>, one graceful stop of
  the master server; the node it leaves differs from the one it found at most in that
  server being stopped, so the member server is the one it found. On a node that is not
  a master (private fields \<open>nil\<close> before the start), whatever \<open>Startup\<close> returned,
  \<open>masterServer\<close> is \<open>nil\<close>: \<open>Shutdown\<close> leaves the node as it is and stops nothing. In
  particular, on a member (advertise address set) whose \<open>Startup\<close> returned \<open>nil\<close>, the
  member server, serving on \<open>MemberAddr\<close>, is still serving and not stopped after
  \<open>Shutdown\<close>.
\<close>

theorem C10_Shutdown_frame:
  "Shutdown n =
     (n\<lparr>masterServer := map_option GracefulStop_server (masterServer n)\<rparr>,
      map (\<lambda>c. HookBeforeShutdown (Comp c)) (rev (Components n)) @
      map (\<lambda>c. HookShutdown (Comp c)) (rev (Components n)) @
      (if masterServer n = None then [] else [GracefulStop TheMasterServer])) \<and>
   memberServer (fst (Shutdown n)) = memberServer n \<and>
   (\<not> IsMaster n0 \<and> masterServer n0 = None \<and> Startup E n0 = (r, n, tr) \<longrightarrow>
      masterServer n = None \<and> fst (Shutdown n) = n \<and> filter is_stop (snd (Shutdown n)) = []) \<and>
   (\<not> IsMaster n0 \<and> AdvertiseAddr n0 \<noteq> '''' \<and> Startup E n0 = (Returns None, n, tr) \<longrightarrow>
      memberServer (fst (Shutdown n)) =
        Some \<lparr>registered = [MemberService], serving = Some (MemberAddr n0), stopped = False\<rparr>)"
proof (intro conjI impI)
  show run: "Shutdown n =
     (n\<lparr>masterServer := map_option GracefulStop_server (masterServer n)\<rparr>,
      map (\<lambda>c. HookBeforeShutdown (Comp c)) (rev (Components n)) @
      map (\<lambda>c. HookShutdown (Comp c)) (rev (Components n)) @
      (if masterServer n = None then [] else [GracefulStop TheMasterServer]))"
    by (cases "masterServer n") (simp_all add: Shutdown_def Let_def shutdown_loop_rev)
  show frame: "memberServer (fst (Shutdown n)) = memberServer n"
    unfolding run by simp
  {
    assume nonmaster: "\<not> IsMaster n0 \<and> masterServer n0 = None \<and> Startup E n0 = (r, n, tr)"
    then have ms: "masterServer n = None"
      using Startup_nonmaster_masterServer [of E n0 r n tr] by simp
    show "masterServer n = None" by (rule ms)
    show "fst (Shutdown n) = n" unfolding run using ms by simp
    show "filter is_stop (snd (Shutdown n)) = []"
      unfolding run using ms by (simp add: filter_empty_conv)
  }
  assume member: "\<not> IsMaster n0 \<and> AdvertiseAddr n0 \<noteq> '''' \<and> Startup E n0 = (Returns None, n, tr)"
  then have ok: "Startup E n0 = (Returns None, n, tr)" by simp
  from Startup_ok [OF ok] obtain h tr2 where
    boot: "bootstrap E (n0\<lparr>cluster := Some (newCluster n0), handler := Some h\<rparr>) = (Returns None, n, tr2)"
    by blast
  with member have "initMember E (n0\<lparr>cluster := Some (newCluster n0), handler := Some h\<rparr>) = (Returns None, n, tr2)"
    by (simp add: bootstrap_def)
  from initMember_ok_memberServer [OF this]
  have "memberServer n = Some \<lparr>registered = [MemberService], serving = Some (MemberAddr n0), stopped = False\<rparr>"
    by simp
  with frame show "memberServer (fst (Shutdown n)) =
        Some \<lparr>registered = [MemberService], serving = Some (MemberAddr n0), stopped = False\<rparr>"
    by simp
qed

theorem C10_Shutdown_frame_witness:
  "\<not> IsMaster member_node \<and> AdvertiseAddr member_node \<noteq> '''' \<and> masterServer member_node = None \<and>
   fst (Startup env_ok member_node) = Returns None \<and>
   snd (Shutdown (fst (snd (Startup env_ok member_node)))) = [HookBeforeShutdown ''echo'', HookShutdown ''echo''] \<and>
   memberServer (fst (Shutdown (fst (snd (Startup env_ok member_node))))) =
     Some \<lparr>registered = [MemberService], serving = Some ''127.0.0.1:9001'', stopped = False\<rparr>"
proof -
  have cfg: "\<not> IsMaster member_node" "AdvertiseAddr member_node \<noteq> ''''" "masterServer member_node = None"
    "MemberAddr member_node = ''127.0.0.1:9001''"
    by (simp_all add: run_defs)
  have ok: "fst (Startup env_ok member_node) = Returns None"
    by (simp add: run_defs)
  then obtain n tr where run: "Startup env_ok member_node = (Returns None, n, tr)"
    by (cases "Startup env_ok member_node") auto
  have comps: "Components n = [\<lparr>Comp = ''echo'', Opts = []\<rparr>]"
    using run by (auto simp: run_defs)
  note frame = C10_Shutdown_frame [of n member_node env_ok "Returns None" tr]
  from frame cfg run have a: "masterServer n = None" by blast
  from frame have b: "Shutdown n =
     (n\<lparr>masterServer := map_option GracefulStop_server (masterServer n)\<rparr>,
      map (\<lambda>c. HookBeforeShutdown (Comp c)) (rev (Components n)) @
      map (\<lambda>c. HookShutdown (Comp c)) (rev (Components n)) @
      (if masterServer n = None then [] else [GracefulStop TheMasterServer]))"
    by blast
  from frame cfg run have c: "memberServer (fst (Shutdown n)) =
      Some \<lparr>registered = [MemberService], serving = Some (MemberAddr member_node), stopped = False\<rparr>"
    by blast
  have d: "snd (Shutdown n) = [HookBeforeShutdown ''echo'', HookShutdown ''echo'']"
    unfolding b using a comps by simp
  from c d cfg show ?thesis unfolding run by simp
qed

end
